theory Spec2Isabelle
  imports Main
begin

section \<open>Data model of \<open>src/auth.ts\<close>\<close>

text \<open>
  The embedding follows the current version of \<open>src/auth.ts\<close> (the one with
  \<open>adminScopes\<close>) and the route handlers of \<open>src/server.ts\<close>.

  A membership \<open>{ type, id?, groupId?, name }\<close>; an optional property is an
  \<open>option\<close>.
\<close>

record group =
  group_type :: string
  group_id :: "string option"
  groupId :: "string option"
  group_name :: string

text \<open>
  \<open>interface DemoUser\<close>. The field \<open>id\<close> is written \<open>id'\<close>, since \<open>id\<close> is
  the identity function of HOL.
\<close>

record DemoUser =
  id' :: string
  email :: string
  adminScopes :: "string list"
  role :: string
  groups :: "group list"

text \<open>
  An element of the module-level array \<open>users\<close>: the fields of a \<open>DemoUser\<close> and the
  bcrypt hash \<open>password\<close>.
\<close>

record StoredUser = DemoUser +
  password :: string

text \<open>
  Values the program receives as \<open>any\<close>: the decoded claims of a token and the body
  of a request. TypeScript checks nothing about them, so they are JavaScript values as
  JSON can produce them, or \<open>undefined\<close>. An object is the list of its properties in
  insertion order, with distinct keys; numbers are the integers.
\<close>

datatype js =
    JUndefined
  | JNull
  | JBool bool
  | JNum int
  | JStr string
  | JArr "js list"
  | JObj "(string \<times> js) list"

text \<open>
  The exceptions of the \<open>jsonwebtoken\<close> package, the \<open>TypeError\<close> of the language
  and a generic \<open>Error\<close>.
\<close>

datatype js_error =
    JsonWebTokenError string
  | TokenExpiredError nat
  | NotBeforeError nat
  | TypeError string
  | Error string

text \<open>
  Reading a property: \<open>prop_of v k\<close> is \<open>v.k\<close> where \<open>v\<close> is neither \<open>null\<close> nor
  \<open>undefined\<close> (none of the keys the program reads is a built-in property of a
  string, a number or an array); \<open>get_prop\<close> is the read as JavaScript performs it,
  which throws on \<open>null\<close> and \<open>undefined\<close>.
\<close>

fun prop_of :: "js \<Rightarrow> string \<Rightarrow> js" where
  "prop_of (JObj kvs) k = (case map_of kvs k of None \<Rightarrow> JUndefined | Some v \<Rightarrow> v)"
| "prop_of v k = JUndefined"

definition get_prop :: "js \<Rightarrow> string \<Rightarrow> js_error + js" where
  "get_prop v k =
     (if v = JUndefined \<or> v = JNull
      then Inl (TypeError ''Cannot read properties of undefined or null'')
      else Inr (prop_of v k))"

text \<open>Truthiness, and the operator \<open>??\<close>, which replaces \<open>undefined\<close> and \<open>null\<close> only.\<close>

fun truthy_js :: "js \<Rightarrow> bool" where
  "truthy_js JUndefined = False"
| "truthy_js JNull = False"
| "truthy_js (JBool b) = b"
| "truthy_js (JNum n) = (n \<noteq> 0)"
| "truthy_js (JStr s) = (s \<noteq> [])"
| "truthy_js (JArr xs) = True"
| "truthy_js (JObj kvs) = True"

fun nullish_coalescing :: "js \<Rightarrow> js \<Rightarrow> js" where
  "nullish_coalescing JUndefined d = d"
| "nullish_coalescing JNull d = d"
| "nullish_coalescing v d = v"

text \<open>
  What \<open>verifySessionJWT\<close> returns. Its declared type is \<open>DemoUser\<close>, but the fields
  are read from an object cast from \<open>any\<close>, so each holds whatever the token carried.
\<close>

record DemoUser_any =
  any_id :: js
  any_email :: js
  any_adminScopes :: js
  any_role :: js
  any_groups :: js

text \<open>
  The JavaScript values that a typed membership and a typed \<open>DemoUser\<close> are at run
  time. An optional property that is not there has no key.
\<close>

definition group_js :: "group \<Rightarrow> js" where
  "group_js g =
     JObj ([(''type'', JStr (group_type g))]
           @ (case group_id g of None \<Rightarrow> [] | Some i \<Rightarrow> [(''id'', JStr i)])
           @ (case groupId g of None \<Rightarrow> [] | Some i \<Rightarrow> [(''groupId'', JStr i)])
           @ [(''name'', JStr (group_name g))])"

definition as_any :: "DemoUser \<Rightarrow> DemoUser_any" where
  "as_any user =
     \<lparr> any_id = JStr (id' user),
       any_email = JStr (email user),
       any_adminScopes = JArr (map JStr (adminScopes user)),
       any_role = JStr (role user),
       any_groups = JArr (map group_js (groups user)) \<rparr>"

text \<open>
  What the program takes from outside: the two packages it calls and the environment
  variables it reads. The packages are not part of the repository, so their functions
  are parameters:
  \<^item> \<open>jwt_sign payload secret expiresIn clock\<close> is \<open>jwt.sign(payload, secret, {expiresIn})\<close>
    called when the clock shows \<open>clock\<close> seconds;
  \<^item> \<open>jwt_verify token secret clock\<close> is \<open>jwt.verify(token, secret)\<close>: the decoded
    claims, or the exception it throws;
  \<^item> \<open>hashSync\<close> and \<open>compareSync\<close> are those of \<open>bcryptjs\<close>, on strings;
  \<^item> \<open>env_JWT_SECRET\<close> and \<open>env_NODE_ENV\<close> are \<open>process.env.JWT_SECRET\<close> and
    \<open>process.env.NODE_ENV\<close>.
\<close>

record platform =
  jwt_sign :: "js \<Rightarrow> string \<Rightarrow> string \<Rightarrow> nat \<Rightarrow> string"
  jwt_verify :: "string \<Rightarrow> string \<Rightarrow> nat \<Rightarrow> js_error + js"
  hashSync :: "string \<Rightarrow> nat \<Rightarrow> string"
  compareSync :: "string \<Rightarrow> string \<Rightarrow> bool"
  env_JWT_SECRET :: "string option"
  env_NODE_ENV :: "string option"

text \<open>
  The module-level bindings of \<open>auth.ts\<close>: the array \<open>users\<close> and the constant
  \<open>JWT_SECRET\<close>. They are the only server-side state there is; every function below
  reads them from this record, and every route handler returns the record it leaves
  behind.
\<close>

record auth_module =
  users :: "StoredUser list"
  JWT_SECRET :: string

text \<open>
  Truthiness of an optional string (\<open>undefined\<close> and the empty string are falsy), and
  \<open>a || d\<close> for a string default \<open>d\<close>.
\<close>

fun truthy :: "string option \<Rightarrow> bool" where
  "truthy None = False"
| "truthy (Some s) = (s \<noteq> [])"

definition or_default :: "string option \<Rightarrow> string \<Rightarrow> string" where
  "or_default v d = (case v of None \<Rightarrow> d | Some s \<Rightarrow> if s = [] then d else s)"

text \<open>Evaluation of the module: lines 117 to 143 of \<open>auth.ts\<close>.\<close>

definition load_auth :: "platform \<Rightarrow> auth_module" where
  "load_auth P =
     \<lparr> users =
         [ \<lparr> id' = ''user-1'',
             email = ''admin@example.com'',
             adminScopes = [''autojoin''],
             role = ''admin'',
             groups =
               [ \<lparr> group_type = ''team'', group_id = Some ''team-1'', groupId = None,
                   group_name = ''Engineering'' \<rparr>,
                 \<lparr> group_type = ''organization'', group_id = Some ''org-1'', groupId = None,
                   group_name = ''Acme Corp'' \<rparr> ],
             password = hashSync P ''password123'' 10 \<rparr>,
           \<lparr> id' = ''user-2'',
             email = ''user@example.com'',
             adminScopes = [],
             role = ''user'',
             groups =
               [ \<lparr> group_type = ''team'', group_id = Some ''team-1'', groupId = None,
                   group_name = ''Engineering'' \<rparr> ],
             password = hashSync P ''userpass'' 10 \<rparr> ],
       JWT_SECRET = or_default (env_JWT_SECRET P) ''demo-secret-key'' \<rparr>"

section \<open>The functions of \<open>src/auth.ts\<close>\<close>

text \<open>
  \<open>try { body } catch { handler }\<close>: whatever the body throws, the handler's result is
  the result.
\<close>

definition try_catch :: "('e + 'a) \<Rightarrow> ('e + 'a) \<Rightarrow> 'e + 'a" where
  "try_catch body handler = (case body of Inl _ \<Rightarrow> handler | Inr v \<Rightarrow> Inr v)"

text \<open>
  The object literal that \<open>createSessionJWT\<close> signs. The function is called with a
  typed \<open>DemoUser\<close> (the result of \<open>authenticateUser\<close>).
\<close>

definition session_claims :: "DemoUser \<Rightarrow> js" where
  "session_claims user =
     JObj [ (''userId'', JStr (id' user)),
            (''email'', JStr (email user)),
            (''adminScopes'', JArr (map JStr (adminScopes user))),
            (''role'', JStr (role user)),
            (''groups'', JArr (map group_js (groups user))) ]"

definition createSessionJWT :: "platform \<Rightarrow> auth_module \<Rightarrow> nat \<Rightarrow> DemoUser \<Rightarrow> string" where
  "createSessionJWT P M clock user =
     jwt_sign P (session_claims user) (JWT_SECRET M) ''1d'' clock"

text \<open>
  What the documentation of \<open>jsonwebtoken\<close> promises of a token signed with
  \<open>expiresIn: '1d'\<close> when the clock showed \<open>issued\<close> and verified with the same secret
  when it shows \<open>clock\<close>: the claims come back with \<open>iat\<close> and \<open>exp = iat + 86400\<close>
  added, as long as the clock is before \<open>exp\<close>; from then on \<open>TokenExpiredError\<close> is
  thrown. It is a property of the package, used as a hypothesis where a theorem depends
  on it.
\<close>

fun with_times :: "js \<Rightarrow> nat \<Rightarrow> nat \<Rightarrow> js" where
  "with_times (JObj kvs) i e = JObj (kvs @ [(''iat'', JNum (int i)), (''exp'', JNum (int e))])"
| "with_times v i e = v"

definition jwt_roundtrip :: "platform \<Rightarrow> js \<Rightarrow> string \<Rightarrow> nat \<Rightarrow> nat \<Rightarrow> bool" where
  "jwt_roundtrip P c secret issued clock \<longleftrightarrow>
     jwt_verify P (jwt_sign P c secret ''1d'' issued) secret clock =
       (if clock < issued + 24 * 60 * 60
        then Inr (with_times c issued (issued + 24 * 60 * 60))
        else Inl (TokenExpiredError (issued + 24 * 60 * 60)))"

text \<open>
  \<open>verifySessionJWT\<close>. The first property read throws when \<open>decoded\<close> is \<open>null\<close> or
  \<open>undefined\<close>; the later ones then cannot. All of it is inside the \<open>try\<close>.
\<close>

definition verifySessionJWT ::
  "platform \<Rightarrow> auth_module \<Rightarrow> nat \<Rightarrow> string \<Rightarrow> js_error + DemoUser_any option" where
  "verifySessionJWT P M clock token =
     try_catch
       (case jwt_verify P token (JWT_SECRET M) clock of
          Inl e \<Rightarrow> Inl e
        | Inr decoded \<Rightarrow>
            (case get_prop decoded ''userId'' of
               Inl e \<Rightarrow> Inl e
             | Inr uid \<Rightarrow>
                 Inr (Some
                   \<lparr> any_id = uid,
                     any_email = prop_of decoded ''email'',
                     any_adminScopes = nullish_coalescing (prop_of decoded ''adminScopes'') (JArr []),
                     any_role = prop_of decoded ''role'',
                     any_groups = prop_of decoded ''groups'' \<rparr>)))
       (Inr None)"

text \<open>\<open>Array.prototype.find\<close>: the first element the predicate holds of.\<close>

definition authenticateUser ::
  "platform \<Rightarrow> auth_module \<Rightarrow> string \<Rightarrow> string \<Rightarrow> DemoUser option" where
  "authenticateUser P M email_arg password_arg =
     (case find (\<lambda>u. email u = email_arg) (users M) of
        None \<Rightarrow> None
      | Some user \<Rightarrow>
          if \<not> compareSync P password_arg (password user) then None
          else Some
            \<lparr> id' = id' user,
              email = email user,
              adminScopes = adminScopes user,
              role = role user,
              groups = groups user \<rparr>)"

text \<open>
  \<open>authenticateUser\<close> as the login handler calls it: the arguments come from a body
  cast from \<open>any\<close>, so they may be any value. \<open>u.email === email\<close> holds only when
  \<open>email\<close> is that string; when a user is found, \<open>bcrypt.compareSync\<close> is called and
  throws \<open>Error('Illegal arguments: ...')\<close> unless the password is a string.
\<close>

definition authenticateUser_any ::
  "platform \<Rightarrow> auth_module \<Rightarrow> js \<Rightarrow> js \<Rightarrow> js_error + DemoUser option" where
  "authenticateUser_any P M email_v password_v =
     (case find (\<lambda>u. JStr (email u) = email_v) (users M) of
        None \<Rightarrow> Inr None
      | Some user \<Rightarrow>
          (case password_v of
             JStr password_arg \<Rightarrow>
               if \<not> compareSync P password_arg (password user) then Inr None
               else Inr (Some
                 \<lparr> id' = id' user,
                   email = email user,
                   adminScopes = adminScopes user,
                   role = role user,
                   groups = groups user \<rparr>)
           | _ \<Rightarrow> Inl (Error ''Illegal arguments'')))"

definition getDemoUsers :: "auth_module \<Rightarrow> DemoUser list" where
  "getDemoUsers M =
     map (\<lambda>user.
            \<lparr> id' = id' user,
              email = email user,
              adminScopes = adminScopes user,
              role = role user,
              groups = groups user \<rparr>)
         (users M)"

text \<open>
  The part of a Fastify request the program reads. \<open>signedCookies\<close>, \<open>cookies\<close> and
  \<open>unsignCookie\<close> may each be missing on the request object (the source reaches them
  through \<open>?.\<close>); \<open>request_user\<close> is the property \<open>user\<close> that \<open>requireAuth\<close>
  attaches; \<open>request_body\<close> is \<open>request.body\<close>, whatever the client sent
  (\<open>JUndefined\<close> when there is none).
\<close>

record unsign_result =
  valid :: bool
  renew :: bool
  unsigned_value :: "string option"

record request =
  signedCookies :: "(string \<rightharpoonup> string) option"
  cookies :: "(string \<rightharpoonup> string) option"
  unsignCookie :: "(string \<Rightarrow> unsign_result option) option"
  request_user :: "DemoUser_any option"
  request_body :: js

text \<open>\<open>jar?.session\<close>\<close>

definition session_entry :: "(string \<rightharpoonup> string) option \<Rightarrow> string option" where
  "session_entry jar = (case jar of None \<Rightarrow> None | Some m \<Rightarrow> m ''session'')"

text \<open>
  Lines 210 to 220 of \<open>getCurrentUser\<close>: the value of the local variable \<open>token\<close>
  when the function reaches \<open>if (!token)\<close>.
\<close>

definition session_token :: "request \<Rightarrow> string option" where
  "session_token request =
     (let token = session_entry (signedCookies request) in
      if \<not> truthy token \<and> truthy (session_entry (cookies request)) then
        (let cookieValue = session_entry (cookies request);
             unsignResult =
               (case (unsignCookie request, cookieValue) of
                  (Some unsign, Some v) \<Rightarrow> unsign v
                | _ \<Rightarrow> None)
         in case unsignResult of
              None \<Rightarrow> token
            | Some r \<Rightarrow> if valid r then unsigned_value r else token)
      else token)"

definition getCurrentUser ::
  "platform \<Rightarrow> auth_module \<Rightarrow> nat \<Rightarrow> request \<Rightarrow> js_error + DemoUser_any option" where
  "getCurrentUser P M clock request =
     (case session_token request of
        None \<Rightarrow> Inr None
      | Some token \<Rightarrow> if token = [] then Inr None else verifySessionJWT P M clock token)"

text \<open>
  The first version of \<open>getCurrentUser\<close> (lines 82 to 89 of the file), which reads
  \<open>request.cookies?.session\<close> and nothing else.
\<close>

definition getCurrentUser_v1 ::
  "platform \<Rightarrow> auth_module \<Rightarrow> nat \<Rightarrow> request \<Rightarrow> js_error + DemoUser_any option" where
  "getCurrentUser_v1 P M clock request =
     (case session_entry (cookies request) of
        None \<Rightarrow> Inr None
      | Some token \<Rightarrow> if token = [] then Inr None else verifySessionJWT P M clock token)"

section \<open>Replies and the route handlers of \<open>src/server.ts\<close>\<close>

text \<open>
  The options object given to \<open>reply.setCookie\<close>. \<open>maxAge\<close> is the number the cookie
  plugin writes into the \<open>Max-Age\<close> attribute, which counts seconds.
\<close>

record cookie_options =
  httpOnly :: bool
  secure :: bool
  sameSite :: string
  maxAge :: nat

datatype cookie_op =
    SetCookie string string cookie_options
  | ClearCookie string

text \<open>
  The bodies the handlers send. The \<open>user\<close> of the login reply is built by an object
  literal in the handler and is modelled as that object.
\<close>

datatype reply_body =
    NoBody
  | ErrorBody string
  | LoginBody bool js
  | SuccessBody bool
  | UserBody DemoUser_any
  | UsersBody "DemoUser list"
  | ProtectedBody string "DemoUser_any option" nat

record reply =
  statusCode :: nat
  cookie_ops :: "cookie_op list"
  payload :: reply_body

definition new_reply :: reply where
  "new_reply = \<lparr> statusCode = 200, cookie_ops = [], payload = NoBody \<rparr>"

definition status :: "reply \<Rightarrow> nat \<Rightarrow> reply" where
  "status r code = r\<lparr> statusCode := code \<rparr>"

definition send :: "reply \<Rightarrow> reply_body \<Rightarrow> reply" where
  "send r b = r\<lparr> payload := b \<rparr>"

definition setCookie :: "reply \<Rightarrow> string \<Rightarrow> string \<Rightarrow> cookie_options \<Rightarrow> reply" where
  "setCookie r name v opts = r\<lparr> cookie_ops := cookie_ops r @ [SetCookie name v opts] \<rparr>"

definition clearCookie :: "reply \<Rightarrow> string \<Rightarrow> reply" where
  "clearCookie r name = r\<lparr> cookie_ops := cookie_ops r @ [ClearCookie name] \<rparr>"

text \<open>
  \<open>requireAuth\<close>: the request as the hook leaves it, and the reply it has sent, if any.
\<close>

definition requireAuth ::
  "platform \<Rightarrow> auth_module \<Rightarrow> nat \<Rightarrow> request \<Rightarrow> js_error + request \<times> reply option" where
  "requireAuth P M clock request =
     (case getCurrentUser P M clock request of
        Inl e \<Rightarrow> Inl e
      | Inr None \<Rightarrow>
          Inr (request, Some (send (status new_reply 401) (ErrorBody ''Authentication required'')))
      | Inr (Some u) \<Rightarrow> Inr (request\<lparr> request_user := Some u \<rparr>, None))"

text \<open>
  A route handler gets the platform, the module state, the clock and the request; it
  returns the reply and the module state it leaves, or the exception it throws.
\<close>

type_synonym handler =
  "platform \<Rightarrow> auth_module \<Rightarrow> nat \<Rightarrow> request \<Rightarrow> js_error + reply \<times> auth_module"

text \<open>
  \<open>POST /api/auth/login\<close>. The destructuring \<open>const { email, password } = request.body\<close>
  throws when the body is \<open>undefined\<close> or \<open>null\<close>; an exception of
  \<open>authenticateUser\<close> leaves the handler.
\<close>

definition login :: handler where
  "login P M clock request =
     (case get_prop (request_body request) ''email'' of
        Inl e \<Rightarrow> Inl e
      | Inr email_v \<Rightarrow>
          (let password_v = prop_of (request_body request) ''password'' in
           if \<not> truthy_js email_v \<or> \<not> truthy_js password_v then
             Inr (send (status new_reply 400) (ErrorBody ''Email and password required''), M)
           else
             (case authenticateUser_any P M email_v password_v of
                Inl e \<Rightarrow> Inl e
              | Inr None \<Rightarrow>
                  Inr (send (status new_reply 401) (ErrorBody ''Invalid credentials''), M)
              | Inr (Some u) \<Rightarrow>
                  (let sessionToken = createSessionJWT P M clock u;
                       r = setCookie new_reply ''session'' sessionToken
                             \<lparr> httpOnly = True,
                               secure = (env_NODE_ENV P = Some ''production''),
                               sameSite = ''lax'',
                               maxAge = 24 * 60 * 60 * 1000 \<rparr>
                   in Inr (send r
                             (LoginBody True
                                (JObj [ (''id'', JStr (id' u)),
                                        (''email'', JStr (email u)),
                                        (''role'', JStr (role u)),
                                        (''groups'', JArr (map group_js (groups u))) ])), M)))))"

text \<open>\<open>POST /api/auth/logout\<close>\<close>

definition logout :: handler where
  "logout P M clock request = Inr (send (clearCookie new_reply ''session'') (SuccessBody True), M)"

text \<open>\<open>GET /api/auth/me\<close>\<close>

definition me :: handler where
  "me P M clock request =
     (case getCurrentUser P M clock request of
        Inl e \<Rightarrow> Inl e
      | Inr None \<Rightarrow> Inr (send (status new_reply 401) (ErrorBody ''Not authenticated''), M)
      | Inr (Some u) \<Rightarrow> Inr (send new_reply (UserBody u), M))"

text \<open>\<open>GET /api/demo/users\<close>\<close>

definition demo_users :: handler where
  "demo_users P M clock request = Inr (send new_reply (UsersBody (getDemoUsers M)), M)"

text \<open>
  \<open>GET /api/demo/protected\<close>: the \<open>preHandler\<close> hook runs first, and the handler runs
  only when the hook has sent no reply. The timestamp is the clock's reading.
\<close>

definition demo_protected :: handler where
  "demo_protected P M clock request =
     (case requireAuth P M clock request of
        Inl e \<Rightarrow> Inl e
      | Inr (request', Some r) \<Rightarrow> Inr (r, M)
      | Inr (request', None) \<Rightarrow>
          Inr (send new_reply
                 (ProtectedBody ''This is a protected route!'' (request_user request') clock), M))"

text \<open>
  The reply the client gets: the handler's, or, when the handler throws, the one of the
  error handler set with \<open>setErrorHandler\<close>.
\<close>

definition respond :: "js_error + reply \<times> auth_module \<Rightarrow> reply" where
  "respond result =
     (case result of
        Inl e \<Rightarrow> send (status new_reply 500) (ErrorBody ''Internal server error'')
      | Inr (r, M) \<Rightarrow> r)"

section \<open>A test double of the platform\<close>

text \<open>
  A small platform to run the functions on: a bcrypt whose hash is transparent, and a
  \<open>jsonwebtoken\<close> that knows three tokens, all signed with \<open>demo-secret-key\<close> when
  the clock showed 0 and so expiring at 86400. \<open>admin-token\<close> carries the claims of
  \<open>user-1\<close>; \<open>legacy-token\<close> carries claims without \<open>adminScopes\<close>; \<open>scoped-token\<close>
  carries the string \<open>autojoin\<close> as its \<open>adminScopes\<close>.
\<close>

definition admin_claims :: js where
  "admin_claims =
     JObj [ (''userId'', JStr ''user-1''),
            (''email'', JStr ''admin@example.com''),
            (''adminScopes'', JArr [JStr ''autojoin'']),
            (''role'', JStr ''admin''),
            (''groups'',
              JArr [ JObj [(''type'', JStr ''team''), (''id'', JStr ''team-1''),
                           (''name'', JStr ''Engineering'')],
                     JObj [(''type'', JStr ''organization''), (''id'', JStr ''org-1''),
                           (''name'', JStr ''Acme Corp'')] ]) ]"

definition legacy_claims :: js where
  "legacy_claims =
     JObj [ (''userId'', JStr ''user-2''),
            (''email'', JStr ''user@example.com''),
            (''role'', JStr ''user''),
            (''groups'',
              JArr [ JObj [(''type'', JStr ''team''), (''id'', JStr ''team-1''),
                           (''name'', JStr ''Engineering'')] ]) ]"

definition scoped_claims :: js where
  "scoped_claims =
     JObj [ (''userId'', JStr ''user-1''),
            (''email'', JStr ''admin@example.com''),
            (''adminScopes'', JStr ''autojoin''),
            (''role'', JStr ''admin''),
            (''groups'', JArr []) ]"

definition stub_sign :: "js \<Rightarrow> string \<Rightarrow> string \<Rightarrow> nat \<Rightarrow> string" where
  "stub_sign c secret expiresIn clock =
     (if secret = ''demo-secret-key'' \<and> expiresIn = ''1d'' \<and> clock = 0 then
        (if c = admin_claims then ''admin-token''
         else if c = legacy_claims then ''legacy-token''
         else if c = scoped_claims then ''scoped-token''
         else ''unknown-token'')
      else ''unknown-token'')"

definition stub_verify :: "string \<Rightarrow> string \<Rightarrow> nat \<Rightarrow> js_error + js" where
  "stub_verify token secret clock =
     (if token = ''admin-token'' \<or> token = ''legacy-token'' \<or> token = ''scoped-token'' then
        (if secret \<noteq> ''demo-secret-key'' then Inl (JsonWebTokenError ''invalid signature'')
         else if 86400 \<le> clock then Inl (TokenExpiredError 86400)
         else Inr (with_times
                     (if token = ''admin-token'' then admin_claims
                      else if token = ''legacy-token'' then legacy_claims
                      else scoped_claims) 0 86400))
      else Inl (JsonWebTokenError ''jwt malformed''))"

definition stub_platform :: "string option \<Rightarrow> string option \<Rightarrow> platform" where
  "stub_platform jwt_secret node_env =
     \<lparr> jwt_sign = stub_sign,
       jwt_verify = stub_verify,
       hashSync = (\<lambda>s rounds. ''$2a$10$'' @ s),
       compareSync = (\<lambda>s hash. hash = ''$2a$10$'' @ s),
       env_JWT_SECRET = jwt_secret,
       env_NODE_ENV = node_env \<rparr>"

definition demo :: platform where
  "demo = stub_platform None None"

text \<open>The user \<open>user-1\<close> as \<open>authenticateUser\<close> returns it.\<close>

definition admin_user :: DemoUser where
  "admin_user =
     \<lparr> id' = ''user-1'',
       email = ''admin@example.com'',
       adminScopes = [''autojoin''],
       role = ''admin'',
       groups =
         [ \<lparr> group_type = ''team'', group_id = Some ''team-1'', groupId = None,
             group_name = ''Engineering'' \<rparr>,
           \<lparr> group_type = ''organization'', group_id = Some ''org-1'', groupId = None,
             group_name = ''Acme Corp'' \<rparr> ] \<rparr>"

text \<open>
  Requests: one without cookies or body; one whose \<open>session\<close> cookie is the given
  string and does not unsign (it carries no cookie signature); one whose \<open>session\<close>
  cookie unsigns to the given token; one that has the token under \<open>signedCookies\<close>;
  and a login request with the given body. \<open>credentials\<close> is the body
  \<open>{email, password}\<close> of two strings.
\<close>

definition bare_request :: request where
  "bare_request =
     \<lparr> signedCookies = None,
       cookies = Some Map.empty,
       unsignCookie = Some (\<lambda>v. Some \<lparr> valid = False, renew = False, unsigned_value = None \<rparr>),
       request_user = None,
       request_body = JUndefined \<rparr>"

definition unsigned_cookie_request :: "string \<Rightarrow> request" where
  "unsigned_cookie_request v = bare_request\<lparr> cookies := Some [''session'' \<mapsto> v] \<rparr>"

definition signed_cookie_request :: "string \<Rightarrow> request" where
  "signed_cookie_request token =
     bare_request
       \<lparr> cookies := Some [''session'' \<mapsto> token @ ''.sig''],
         unsignCookie :=
           Some (\<lambda>v. Some (if v = token @ ''.sig''
                            then \<lparr> valid = True, renew = False, unsigned_value = Some token \<rparr>
                            else \<lparr> valid = False, renew = False, unsigned_value = None \<rparr>)) \<rparr>"

definition jar_request :: "string \<Rightarrow> request" where
  "jar_request token = bare_request\<lparr> signedCookies := Some [''session'' \<mapsto> token] \<rparr>"

definition login_request :: "js \<Rightarrow> request" where
  "login_request b = bare_request\<lparr> request_body := b \<rparr>"

definition credentials :: "string \<Rightarrow> string \<Rightarrow> js" where
  "credentials e p = JObj [(''email'', JStr e), (''password'', JStr p)]"

section \<open>The credential store\<close>

lemma DemoUser_eq_iff:
  "(r = \<lparr> id' = a, email = b, adminScopes = c, role = d, groups = g \<rparr>) \<longleftrightarrow>
   id' r = a \<and> email r = b \<and> adminScopes r = c \<and> role r = d \<and> groups r = g"
  by (cases r) simp

lemma authenticateUser_Some_iff:
  "authenticateUser P M e p = Some r \<longleftrightarrow>
     (\<exists>u. find (\<lambda>u. email u = e) (users M) = Some u \<and> compareSync P p (password u) \<and>
         id' r = id' u \<and> email r = email u \<and> adminScopes r = adminScopes u \<and>
         role r = role u \<and> groups r = groups u)"
  by (cases r) (auto simp add: authenticateUser_def split: option.splits)

lemma find_distinct_email:
  "distinct (map email us) \<Longrightarrow>
   find (\<lambda>u. email u = e) us = Some u \<longleftrightarrow> u \<in> set us \<and> email u = e"
  by (induction us) (auto simp: rev_image_eqI)

lemma distinct_emails_load_auth: "distinct (map email (users (load_auth P)))"
  by (simp add: load_auth_def)

text \<open>
  Claim C1. On the user store of the module, \<open>authenticateUser\<close> returns a user exactly
  when a stored record has the given email (string equality, so case-sensitive) and
  \<open>compareSync\<close> accepts the password against that record's hash; what it returns then
  carries that record's id, email, admin scopes, role and groups. An unknown email and
  a known email with a wrong password both give \<open>None\<close>.
\<close>

theorem authenticateUser_iff_known_email_and_password:
  "(authenticateUser P (load_auth P) e p = Some r \<longleftrightarrow>
      (\<exists>u \<in> set (users (load_auth P)).
         email u = e \<and> compareSync P p (password u) \<and>
         id' r = id' u \<and> email r = email u \<and> adminScopes r = adminScopes u \<and>
         role r = role u \<and> groups r = groups u))
   \<and> ((\<forall>u \<in> set (users (load_auth P)). email u \<noteq> e) \<longrightarrow>
        authenticateUser P (load_auth P) e p = None)
   \<and> ((\<exists>u \<in> set (users (load_auth P)). email u = e \<and> \<not> compareSync P p (password u)) \<longrightarrow>
        authenticateUser P (load_auth P) e p = None)"
proof (intro conjI impI)
  note fd = find_distinct_email [OF distinct_emails_load_auth]
  show "authenticateUser P (load_auth P) e p = Some r \<longleftrightarrow>
      (\<exists>u \<in> set (users (load_auth P)).
         email u = e \<and> compareSync P p (password u) \<and>
         id' r = id' u \<and> email r = email u \<and> adminScopes r = adminScopes u \<and>
         role r = role u \<and> groups r = groups u)"
    unfolding authenticateUser_Some_iff fd by blast
next
  assume "\<forall>u \<in> set (users (load_auth P)). email u \<noteq> e"
  then have "find (\<lambda>u. email u = e) (users (load_auth P)) = None"
    by (simp add: find_None_iff)
  then show "authenticateUser P (load_auth P) e p = None"
    by (simp add: authenticateUser_def)
next
  assume "\<exists>u \<in> set (users (load_auth P)). email u = e \<and> \<not> compareSync P p (password u)"
  then obtain u where u: "u \<in> set (users (load_auth P))" "email u = e"
    "\<not> compareSync P p (password u)" by blast
  then have "find (\<lambda>u. email u = e) (users (load_auth P)) = Some u"
    using find_distinct_email [OF distinct_emails_load_auth] by blast
  with u show "authenticateUser P (load_auth P) e p = None"
    by (simp add: authenticateUser_def)
qed

text \<open>
  On the test double: the right password, an email that differs in case only, an
  unknown email, and the other user's password.
\<close>

theorem authenticateUser_witness:
  "authenticateUser demo (load_auth demo) ''admin@example.com'' ''password123'' = Some admin_user
   \<and> authenticateUser demo (load_auth demo) ''Admin@example.com'' ''password123'' = None
   \<and> authenticateUser demo (load_auth demo) ''nobody@example.com'' ''password123'' = None
   \<and> authenticateUser demo (load_auth demo) ''admin@example.com'' ''userpass'' = None"
proof -
  have 1: "authenticateUser demo (load_auth demo) ''admin@example.com'' ''password123''
             = Some admin_user"
    using authenticateUser_iff_known_email_and_password
      [of demo "''admin@example.com''" "''password123''" admin_user]
    by (simp add: load_auth_def demo_def stub_platform_def admin_user_def)
  have 2: "authenticateUser demo (load_auth demo) ''Admin@example.com'' ''password123'' = None"
    using authenticateUser_iff_known_email_and_password
      [of demo "''Admin@example.com''" "''password123''" admin_user]
    by (simp add: load_auth_def)
  have 3: "authenticateUser demo (load_auth demo) ''nobody@example.com'' ''password123'' = None"
    using authenticateUser_iff_known_email_and_password
      [of demo "''nobody@example.com''" "''password123''" admin_user]
    by (simp add: load_auth_def)
  have 4: "authenticateUser demo (load_auth demo) ''admin@example.com'' ''userpass'' = None"
    using authenticateUser_iff_known_email_and_password
      [of demo "''admin@example.com''" "''userpass''" admin_user]
    by (simp add: load_auth_def demo_def stub_platform_def)
  from 1 2 3 4 show ?thesis by simp
qed


section \<open>The session codec\<close>

lemma verifySessionJWT_cases:
  "verifySessionJWT P M clock token =
     (case jwt_verify P token (JWT_SECRET M) clock of
        Inl e \<Rightarrow> Inr None
      | Inr d \<Rightarrow>
          if d = JUndefined \<or> d = JNull then Inr None
          else Inr (Some \<lparr> any_id = prop_of d ''userId'', any_email = prop_of d ''email'',
                            any_adminScopes =
                              nullish_coalescing (prop_of d ''adminScopes'') (JArr []),
                            any_role = prop_of d ''role'', any_groups = prop_of d ''groups'' \<rparr>))"
  by (simp add: verifySessionJWT_def try_catch_def get_prop_def split: sum.splits)

lemma JWT_SECRET_demo: "JWT_SECRET (load_auth demo) = ''demo-secret-key''"
  by (simp add: load_auth_def demo_def stub_platform_def or_default_def)

lemma jwt_demo: "jwt_sign demo = stub_sign" "jwt_verify demo = stub_verify"
  by (simp_all add: demo_def stub_platform_def)

lemma session_claims_admin: "session_claims admin_user = admin_claims"
  by (simp add: session_claims_def admin_user_def admin_claims_def group_js_def)

lemma as_any_admin:
  "as_any admin_user =
     \<lparr> any_id = JStr ''user-1'', any_email = JStr ''admin@example.com'',
       any_adminScopes = JArr [JStr ''autojoin''], any_role = JStr ''admin'',
       any_groups =
         JArr [ JObj [(''type'', JStr ''team''), (''id'', JStr ''team-1''),
                      (''name'', JStr ''Engineering'')],
                JObj [(''type'', JStr ''organization''), (''id'', JStr ''org-1''),
                      (''name'', JStr ''Acme Corp'')] ] \<rparr>"
  by (simp add: as_any_def admin_user_def group_js_def)

lemma verify_admin_token_demo:
  "clock < 86400 \<Longrightarrow>
   verifySessionJWT demo (load_auth demo) clock ''admin-token'' = Inr (Some (as_any admin_user))"
  by (simp add: verifySessionJWT_cases JWT_SECRET_demo jwt_demo stub_verify_def
        admin_claims_def as_any_admin)

text \<open>
  The run-time value of a typed user determines the user: nothing is lost when a
  result is stated on \<open>as_any\<close>.
\<close>

lemma group_js_inject: "group_js g = group_js h \<Longrightarrow> g = h"
  by (cases g; cases h) (auto simp add: group_js_def split: option.splits)

lemma as_any_inject: "as_any u = as_any v \<Longrightarrow> u = v"
proof -
  assume a: "as_any u = as_any v"
  have "inj JStr" by (simp add: inj_def)
  moreover have "inj group_js" by (auto simp add: inj_def dest: group_js_inject)
  ultimately have "inj (map JStr)" and "inj (map group_js)" by simp_all
  with a show "u = v"
    by (cases u; cases v) (auto simp add: as_any_def dest: injD)
qed

text \<open>
  Claim C2. When the JWT package keeps its promise for the claims of \<open>user\<close>
  (\<open>jwt_roundtrip\<close>) and the token is verified before its one-day expiry, with the
  module's own secret on both sides, verifying the token that \<open>createSessionJWT\<close>
  signed for \<open>user\<close> returns \<open>user\<close>: every field of the result is the value of
  that field of \<open>user\<close>.
\<close>

theorem verify_createSessionJWT_roundtrip:
  assumes "jwt_roundtrip P (session_claims user) (JWT_SECRET M) issued clock"
    and "clock < issued + 24 * 60 * 60"
  shows "verifySessionJWT P M clock (createSessionJWT P M issued user) = Inr (Some (as_any user))"
  using assms
  by (simp add: jwt_roundtrip_def verifySessionJWT_cases createSessionJWT_def session_claims_def
        as_any_def)

text \<open>The token of \<open>user-1\<close>, signed at 0 and verified an hour later.\<close>

theorem verify_createSessionJWT_roundtrip_witness:
  "jwt_roundtrip demo (session_claims admin_user) (JWT_SECRET (load_auth demo)) 0 3600
   \<and> verifySessionJWT demo (load_auth demo) 3600
        (createSessionJWT demo (load_auth demo) 0 admin_user)
     = Inr (Some (as_any admin_user))"
proof -
  have r: "jwt_roundtrip demo (session_claims admin_user) (JWT_SECRET (load_auth demo)) 0 3600"
    by (simp add: jwt_roundtrip_def session_claims_admin JWT_SECRET_demo jwt_demo
          stub_sign_def stub_verify_def)
  from r verify_createSessionJWT_roundtrip [OF r] show ?thesis by simp
qed

text \<open>
  Claim C3. \<open>verifySessionJWT\<close> always returns (it never hands an exception to its
  caller), and whatever \<open>jwt.verify\<close> throws, be it for an invalid signature, a
  malformed token or an expiry in the past, the result is the same \<open>None\<close>.
\<close>

theorem verifySessionJWT_never_throws:
  "(\<exists>r. verifySessionJWT P M clock token = Inr r)
   \<and> (\<forall>e. jwt_verify P token (JWT_SECRET M) clock = Inl e \<longrightarrow>
          verifySessionJWT P M clock token = Inr None)"
  by (simp add: verifySessionJWT_cases split: sum.splits)

text \<open>
  A token with one byte changed, the token under a module loaded with another secret,
  and the token at its expiry; one second earlier it still verifies.
\<close>

theorem verifySessionJWT_failures_witness:
  "jwt_verify demo ''admin-tokem'' (JWT_SECRET (load_auth demo)) 3600
     = Inl (JsonWebTokenError ''jwt malformed'')
   \<and> verifySessionJWT demo (load_auth demo) 3600 ''admin-tokem'' = Inr None
   \<and> jwt_verify (stub_platform (Some ''another-secret'') None) ''admin-token''
        (JWT_SECRET (load_auth (stub_platform (Some ''another-secret'') None))) 3600
     = Inl (JsonWebTokenError ''invalid signature'')
   \<and> verifySessionJWT (stub_platform (Some ''another-secret'') None)
        (load_auth (stub_platform (Some ''another-secret'') None)) 3600 ''admin-token'' = Inr None
   \<and> jwt_verify demo ''admin-token'' (JWT_SECRET (load_auth demo)) 86400
     = Inl (TokenExpiredError 86400)
   \<and> verifySessionJWT demo (load_auth demo) 86400 ''admin-token'' = Inr None
   \<and> verifySessionJWT demo (load_auth demo) 86399 ''admin-token''
     = Inr (Some (as_any admin_user))"
proof -
  let ?Q = "stub_platform (Some ''another-secret'') None"
  have a: "jwt_verify demo ''admin-tokem'' (JWT_SECRET (load_auth demo)) 3600
     = Inl (JsonWebTokenError ''jwt malformed'')"
    by (simp add: JWT_SECRET_demo jwt_demo stub_verify_def)
  have b: "jwt_verify ?Q ''admin-token'' (JWT_SECRET (load_auth ?Q)) 3600
     = Inl (JsonWebTokenError ''invalid signature'')"
    by (simp add: load_auth_def stub_platform_def or_default_def stub_verify_def)
  have c: "jwt_verify demo ''admin-token'' (JWT_SECRET (load_auth demo)) 86400
     = Inl (TokenExpiredError 86400)"
    by (simp add: JWT_SECRET_demo jwt_demo stub_verify_def)
  have d: "verifySessionJWT demo (load_auth demo) 86399 ''admin-token''
             = Inr (Some (as_any admin_user))"
    by (simp add: verify_admin_token_demo)
  from a b c d
    verifySessionJWT_never_throws [of demo "load_auth demo" 3600 "''admin-tokem''"]
    verifySessionJWT_never_throws [of ?Q "load_auth ?Q" 3600 "''admin-token''"]
    verifySessionJWT_never_throws [of demo "load_auth demo" 86400 "''admin-token''"]
  show ?thesis by blast
qed

text \<open>
  Claim C10, as stated, fails: a token whose \<open>adminScopes\<close> entry is the string
  \<open>autojoin\<close> is accepted, and the \<open>adminScopes\<close> of the user returned is that
  string, not a list.
\<close>

theorem verifySessionJWT_string_adminScopes_counterexample:
  "jwt_verify demo ''scoped-token'' (JWT_SECRET (load_auth demo)) 3600
     = Inr (with_times scoped_claims 0 86400)
   \<and> prop_of (with_times scoped_claims 0 86400) ''adminScopes'' = JStr ''autojoin''
   \<and> verifySessionJWT demo (load_auth demo) 3600 ''scoped-token''
     = Inr (Some \<lparr> any_id = JStr ''user-1'', any_email = JStr ''admin@example.com'',
                    any_adminScopes = JStr ''autojoin'', any_role = JStr ''admin'',
                    any_groups = JArr [] \<rparr>)"
  by (simp add: verifySessionJWT_cases JWT_SECRET_demo jwt_demo stub_verify_def scoped_claims_def)

text \<open>
  Claim C10, amended. For every token that \<open>verifySessionJWT\<close> accepts, the
  \<open>adminScopes\<close> of the user returned is never \<open>undefined\<close> or \<open>null\<close>: it is the
  \<open>adminScopes\<close> entry of the token's claims as it stands, and the empty list when the
  claims have no such entry or a \<open>null\<close> one. So it is a list whenever the entry is a
  list or is missing; a token with claims but no \<open>adminScopes\<close> entry is accepted with
  the empty list.
\<close>

theorem verifySessionJWT_adminScopes_defined:
  "(verifySessionJWT P M clock token = Inr (Some u) \<longrightarrow>
      any_adminScopes u \<noteq> JUndefined \<and> any_adminScopes u \<noteq> JNull \<and>
      (\<exists>d. jwt_verify P token (JWT_SECRET M) clock = Inr d \<and>
           any_adminScopes u = nullish_coalescing (prop_of d ''adminScopes'') (JArr [])))
   \<and> (jwt_verify P token (JWT_SECRET M) clock = Inr (JObj kvs) \<and>
       (prop_of (JObj kvs) ''adminScopes'' = JUndefined \<or>
        prop_of (JObj kvs) ''adminScopes'' = JNull) \<longrightarrow>
        (\<exists>u. verifySessionJWT P M clock token = Inr (Some u) \<and> any_adminScopes u = JArr []))
   \<and> (jwt_verify P token (JWT_SECRET M) clock = Inr (JObj kvs) \<and>
       prop_of (JObj kvs) ''adminScopes'' = JArr xs \<longrightarrow>
        (\<exists>u. verifySessionJWT P M clock token = Inr (Some u) \<and> any_adminScopes u = JArr xs))"
proof -
  have n: "nullish_coalescing v (JArr []) \<noteq> JUndefined \<and> nullish_coalescing v (JArr []) \<noteq> JNull"
    for v by (cases v) simp_all
  have 1: "verifySessionJWT P M clock token = Inr (Some u) \<longrightarrow>
      any_adminScopes u \<noteq> JUndefined \<and> any_adminScopes u \<noteq> JNull \<and>
      (\<exists>d. jwt_verify P token (JWT_SECRET M) clock = Inr d \<and>
           any_adminScopes u = nullish_coalescing (prop_of d ''adminScopes'') (JArr []))"
  proof
    assume "verifySessionJWT P M clock token = Inr (Some u)"
    then obtain d where d: "jwt_verify P token (JWT_SECRET M) clock = Inr d"
      and u: "any_adminScopes u = nullish_coalescing (prop_of d ''adminScopes'') (JArr [])"
      by (auto simp add: verifySessionJWT_cases split: sum.splits if_splits)
    from d u n [of "prop_of d ''adminScopes''"]
    show "any_adminScopes u \<noteq> JUndefined \<and> any_adminScopes u \<noteq> JNull \<and>
      (\<exists>d. jwt_verify P token (JWT_SECRET M) clock = Inr d \<and>
           any_adminScopes u = nullish_coalescing (prop_of d ''adminScopes'') (JArr []))"
      by auto
  qed
  have 2: "jwt_verify P token (JWT_SECRET M) clock = Inr (JObj kvs) \<and>
       (prop_of (JObj kvs) ''adminScopes'' = JUndefined \<or>
        prop_of (JObj kvs) ''adminScopes'' = JNull) \<longrightarrow>
        (\<exists>u. verifySessionJWT P M clock token = Inr (Some u) \<and> any_adminScopes u = JArr [])"
    by (auto simp add: verifySessionJWT_cases)
  have 3: "jwt_verify P token (JWT_SECRET M) clock = Inr (JObj kvs) \<and>
       prop_of (JObj kvs) ''adminScopes'' = JArr xs \<longrightarrow>
        (\<exists>u. verifySessionJWT P M clock token = Inr (Some u) \<and> any_adminScopes u = JArr xs)"
    by (auto simp add: verifySessionJWT_cases)
  from 1 2 3 show ?thesis by (intro conjI)
qed

text \<open>The token signed without \<open>adminScopes\<close>, and the token of \<open>user-1\<close>.\<close>

theorem verifySessionJWT_adminScopes_witness:
  "jwt_verify demo ''legacy-token'' (JWT_SECRET (load_auth demo)) 3600
     = Inr (with_times legacy_claims 0 86400)
   \<and> prop_of (with_times legacy_claims 0 86400) ''adminScopes'' = JUndefined
   \<and> (\<exists>u. verifySessionJWT demo (load_auth demo) 3600 ''legacy-token'' = Inr (Some u)
          \<and> any_adminScopes u = JArr [])
   \<and> (\<exists>u. verifySessionJWT demo (load_auth demo) 3600 ''admin-token'' = Inr (Some u)
          \<and> any_adminScopes u = JArr [JStr ''autojoin''])"
proof -
  have a: "jwt_verify demo ''legacy-token'' (JWT_SECRET (load_auth demo)) 3600
     = Inr (with_times legacy_claims 0 86400)"
    by (simp add: JWT_SECRET_demo jwt_demo stub_verify_def)
  have a': "with_times legacy_claims 0 86400 =
      JObj [ (''userId'', JStr ''user-2''), (''email'', JStr ''user@example.com''),
             (''role'', JStr ''user''),
             (''groups'', JArr [ JObj [(''type'', JStr ''team''), (''id'', JStr ''team-1''),
                                       (''name'', JStr ''Engineering'')] ]),
             (''iat'', JNum 0), (''exp'', JNum 86400) ]"
    by (simp add: legacy_claims_def)
  have b: "prop_of (with_times legacy_claims 0 86400) ''adminScopes'' = JUndefined"
    by (simp add: a')
  have c: "jwt_verify demo ''admin-token'' (JWT_SECRET (load_auth demo)) 3600
     = Inr (with_times admin_claims 0 86400)"
    by (simp add: JWT_SECRET_demo jwt_demo stub_verify_def)
  have c': "with_times admin_claims 0 86400 =
      JObj [ (''userId'', JStr ''user-1''), (''email'', JStr ''admin@example.com''),
             (''adminScopes'', JArr [JStr ''autojoin'']), (''role'', JStr ''admin''),
             (''groups'',
               JArr [ JObj [(''type'', JStr ''team''), (''id'', JStr ''team-1''),
                            (''name'', JStr ''Engineering'')],
                      JObj [(''type'', JStr ''organization''), (''id'', JStr ''org-1''),
                            (''name'', JStr ''Acme Corp'')] ]),
             (''iat'', JNum 0), (''exp'', JNum 86400) ]"
    by (simp add: admin_claims_def)
  have d: "prop_of (with_times admin_claims 0 86400) ''adminScopes'' = JArr [JStr ''autojoin'']"
    by (simp add: c')
  have 1: "\<exists>u. verifySessionJWT demo (load_auth demo) 3600 ''legacy-token'' = Inr (Some u)
          \<and> any_adminScopes u = JArr []"
    using verifySessionJWT_adminScopes_defined
      [where P = demo and M = "load_auth demo" and clock = 3600 and token = "''legacy-token''"
         and kvs = "[ (''userId'', JStr ''user-2''), (''email'', JStr ''user@example.com''),
             (''role'', JStr ''user''),
             (''groups'', JArr [ JObj [(''type'', JStr ''team''), (''id'', JStr ''team-1''),
                                       (''name'', JStr ''Engineering'')] ]),
             (''iat'', JNum 0), (''exp'', JNum 86400) ]"]
      a b unfolding a' by blast
  have 2: "\<exists>u. verifySessionJWT demo (load_auth demo) 3600 ''admin-token'' = Inr (Some u)
          \<and> any_adminScopes u = JArr [JStr ''autojoin'']"
    using verifySessionJWT_adminScopes_defined
      [where P = demo and M = "load_auth demo" and clock = 3600 and token = "''admin-token''"
         and xs = "[JStr ''autojoin'']"
         and kvs = "[ (''userId'', JStr ''user-1''), (''email'', JStr ''admin@example.com''),
             (''adminScopes'', JArr [JStr ''autojoin'']), (''role'', JStr ''admin''),
             (''groups'',
               JArr [ JObj [(''type'', JStr ''team''), (''id'', JStr ''team-1''),
                            (''name'', JStr ''Engineering'')],
                      JObj [(''type'', JStr ''organization''), (''id'', JStr ''org-1''),
                            (''name'', JStr ''Acme Corp'')] ]),
             (''iat'', JNum 0), (''exp'', JNum 86400) ]"]
      c d unfolding c' by blast
  from a b 1 2 show ?thesis by blast
qed

section \<open>The current user and \<open>requireAuth\<close>\<close>

lemma truthy_iff: "truthy x \<longleftrightarrow> (\<exists>s. x = Some s \<and> s \<noteq> [])"
  by (cases x) auto

lemma getCurrentUser_no_token:
  "\<not> truthy (session_token request) \<Longrightarrow> getCurrentUser P M clock request = Inr None"
  by (auto simp add: getCurrentUser_def truthy_iff split: option.splits)

lemma getCurrentUser_token:
  "session_token request = Some t \<Longrightarrow> t \<noteq> [] \<Longrightarrow>
   getCurrentUser P M clock request = verifySessionJWT P M clock t"
  by (simp add: getCurrentUser_def)

lemma getCurrentUser_returns: "\<exists>r. getCurrentUser P M clock request = Inr r"
  by (simp add: getCurrentUser_def verifySessionJWT_cases split: option.splits sum.splits)

lemma session_token_bare: "session_token bare_request = None"
  by (simp add: session_token_def bare_request_def session_entry_def)

lemma session_token_unsigned: "session_token (unsigned_cookie_request v) = None"
  by (simp add: session_token_def unsigned_cookie_request_def bare_request_def session_entry_def)

lemma session_token_signed:
  "t \<noteq> [] \<Longrightarrow> session_token (signed_cookie_request t) = Some t"
  by (simp add: session_token_def signed_cookie_request_def bare_request_def session_entry_def)

text \<open>
  The first version of \<open>getCurrentUser\<close> hands the value of the \<open>session\<close> cookie
  itself to \<open>verifySessionJWT\<close>.
\<close>

lemma getCurrentUser_v1_cookie:
  "session_entry (cookies request) = None \<Longrightarrow> getCurrentUser_v1 P M clock request = Inr None"
  "session_entry (cookies request) = Some c \<Longrightarrow> c \<noteq> [] \<Longrightarrow>
   getCurrentUser_v1 P M clock request = verifySessionJWT P M clock c"
  by (simp_all add: getCurrentUser_v1_def)

text \<open>
  Claim C4. \<open>requireAuth\<close> sends a reply exactly when \<open>getCurrentUser\<close> yields
  \<open>None\<close>; the reply is then 401 with the body \<open>{error: 'Authentication required'}\<close>,
  and that is what the protected route answers. When \<open>getCurrentUser\<close> yields a user,
  the hook sends nothing and leaves the request with exactly that user attached, and the
  route's handler runs and answers with that user. \<open>getCurrentUser\<close> always yields one
  or the other.
\<close>

theorem requireAuth_401_iff_no_current_user:
  "((\<exists>request' r. requireAuth P M clock request = Inr (request', Some r))
      \<longleftrightarrow> getCurrentUser P M clock request = Inr None)
   \<and> (getCurrentUser P M clock request = Inr None \<longrightarrow>
        requireAuth P M clock request =
          Inr (request, Some \<lparr> statusCode = 401, cookie_ops = [],
                               payload = ErrorBody ''Authentication required'' \<rparr>)
        \<and> demo_protected P M clock request =
          Inr (\<lparr> statusCode = 401, cookie_ops = [],
                  payload = ErrorBody ''Authentication required'' \<rparr>, M))
   \<and> (\<forall>u. getCurrentUser P M clock request = Inr (Some u) \<longrightarrow>
        requireAuth P M clock request = Inr (request\<lparr> request_user := Some u \<rparr>, None)
        \<and> demo_protected P M clock request =
          Inr (\<lparr> statusCode = 200, cookie_ops = [],
                  payload = ProtectedBody ''This is a protected route!'' (Some u) clock \<rparr>, M))
   \<and> (\<exists>r. getCurrentUser P M clock request = Inr r)"
proof -
  obtain r where r: "getCurrentUser P M clock request = Inr r"
    using getCurrentUser_returns by blast
  show ?thesis
    by (cases r)
       (simp_all add: r requireAuth_def demo_protected_def new_reply_def status_def send_def)
qed

text \<open>
  No cookie, a cookie whose token is malformed, an expired token, and a valid token.
\<close>

theorem requireAuth_witness:
  "getCurrentUser demo (load_auth demo) 3600 bare_request = Inr None
   \<and> demo_protected demo (load_auth demo) 3600 bare_request =
       Inr (\<lparr> statusCode = 401, cookie_ops = [],
               payload = ErrorBody ''Authentication required'' \<rparr>, load_auth demo)
   \<and> getCurrentUser demo (load_auth demo) 3600 (signed_cookie_request ''garbage'') = Inr None
   \<and> demo_protected demo (load_auth demo) 3600 (signed_cookie_request ''garbage'') =
       Inr (\<lparr> statusCode = 401, cookie_ops = [],
               payload = ErrorBody ''Authentication required'' \<rparr>, load_auth demo)
   \<and> getCurrentUser demo (load_auth demo) 90000 (signed_cookie_request ''admin-token'') = Inr None
   \<and> demo_protected demo (load_auth demo) 90000 (signed_cookie_request ''admin-token'') =
       Inr (\<lparr> statusCode = 401, cookie_ops = [],
               payload = ErrorBody ''Authentication required'' \<rparr>, load_auth demo)
   \<and> getCurrentUser demo (load_auth demo) 3600 (signed_cookie_request ''admin-token'')
       = Inr (Some (as_any admin_user))
   \<and> requireAuth demo (load_auth demo) 3600 (signed_cookie_request ''admin-token'')
       = Inr ((signed_cookie_request ''admin-token'')\<lparr> request_user := Some (as_any admin_user) \<rparr>, None)
   \<and> demo_protected demo (load_auth demo) 3600 (signed_cookie_request ''admin-token'') =
       Inr (\<lparr> statusCode = 200, cookie_ops = [],
               payload = ProtectedBody ''This is a protected route!'' (Some (as_any admin_user)) 3600 \<rparr>,
            load_auth demo)"
proof -
  have a: "getCurrentUser demo (load_auth demo) 3600 bare_request = Inr None"
    by (simp add: getCurrentUser_def session_token_bare)
  have b: "getCurrentUser demo (load_auth demo) 3600 (signed_cookie_request ''garbage'')
             = Inr None"
    by (simp add: getCurrentUser_def session_token_signed verifySessionJWT_cases
          JWT_SECRET_demo jwt_demo stub_verify_def)
  have c: "getCurrentUser demo (load_auth demo) 90000 (signed_cookie_request ''admin-token'')
             = Inr None"
    by (simp add: getCurrentUser_def session_token_signed verifySessionJWT_cases
          JWT_SECRET_demo jwt_demo stub_verify_def)
  have d: "getCurrentUser demo (load_auth demo) 3600 (signed_cookie_request ''admin-token'')
       = Inr (Some (as_any admin_user))"
    by (simp add: getCurrentUser_def session_token_signed verify_admin_token_demo)
  from a b c d
    requireAuth_401_iff_no_current_user [of demo "load_auth demo" 3600 bare_request]
    requireAuth_401_iff_no_current_user
      [of demo "load_auth demo" 3600 "signed_cookie_request ''garbage''"]
    requireAuth_401_iff_no_current_user
      [of demo "load_auth demo" 90000 "signed_cookie_request ''admin-token''"]
    requireAuth_401_iff_no_current_user
      [of demo "load_auth demo" 3600 "signed_cookie_request ''admin-token''"]
  show ?thesis by simp
qed

text \<open>
  Where \<open>getCurrentUser\<close> takes its token from: \<open>signedCookies.session\<close> when that
  is a non-empty string; otherwise the \<open>session\<close> cookie, when it is non-empty and
  \<open>request.unsignCookie\<close> reports it valid with a non-empty value. In every other case
  there is no token and the result is \<open>None\<close>.
\<close>

lemma getCurrentUser_token_source:
  "(session_entry (signedCookies request) = Some t \<and> t \<noteq> [] \<longrightarrow>
      getCurrentUser P M clock request = verifySessionJWT P M clock t)
   \<and> (\<not> truthy (session_entry (signedCookies request)) \<and>
       session_entry (cookies request) = Some c \<and> c \<noteq> [] \<and>
       unsignCookie request = Some unsign \<and> unsign c = Some r \<and> valid r \<and>
       unsigned_value r = Some t \<and> t \<noteq> [] \<longrightarrow>
      getCurrentUser P M clock request = verifySessionJWT P M clock t)
   \<and> (\<not> truthy (session_entry (signedCookies request)) \<and>
       (\<not> truthy (session_entry (cookies request)) \<or>
        unsignCookie request = None \<or>
        (\<exists>unsign c. unsignCookie request = Some unsign \<and>
           session_entry (cookies request) = Some c \<and>
           (case unsign c of None \<Rightarrow> True
            | Some r \<Rightarrow> \<not> valid r \<or> \<not> truthy (unsigned_value r)))) \<longrightarrow>
      getCurrentUser P M clock request = Inr None)"
proof (intro conjI impI)
  assume "session_entry (signedCookies request) = Some t \<and> t \<noteq> []"
  then have "session_token request = Some t" and "t \<noteq> []"
    by (simp_all add: session_token_def)
  then show "getCurrentUser P M clock request = verifySessionJWT P M clock t"
    by (rule getCurrentUser_token)
next
  assume a: "\<not> truthy (session_entry (signedCookies request)) \<and>
       session_entry (cookies request) = Some c \<and> c \<noteq> [] \<and>
       unsignCookie request = Some unsign \<and> unsign c = Some r \<and> valid r \<and>
       unsigned_value r = Some t \<and> t \<noteq> []"
  then have "session_token request = Some t"
    by (simp add: session_token_def)
  with a show "getCurrentUser P M clock request = verifySessionJWT P M clock t"
    by (simp add: getCurrentUser_token)
next
  assume a: "\<not> truthy (session_entry (signedCookies request)) \<and>
       (\<not> truthy (session_entry (cookies request)) \<or>
        unsignCookie request = None \<or>
        (\<exists>unsign c. unsignCookie request = Some unsign \<and>
           session_entry (cookies request) = Some c \<and>
           (case unsign c of None \<Rightarrow> True
            | Some r \<Rightarrow> \<not> valid r \<or> \<not> truthy (unsigned_value r))))"
  then have "\<not> truthy (session_token request)"
    by (auto simp add: session_token_def Let_def split: option.splits)
  then show "getCurrentUser P M clock request = Inr None"
    by (rule getCurrentUser_no_token)
qed

text \<open>
  Claim C5 (what the code does). A request that carries a \<open>session\<close> cookie which
  \<open>request.unsignCookie\<close> does not report valid, and nothing under \<open>signedCookies\<close>,
  gets \<open>None\<close> from \<open>getCurrentUser\<close>, whatever \<open>verifySessionJWT\<close> would say of
  the cookie's value: the cookie is present and its token is never verified.
\<close>

theorem getCurrentUser_ignores_unsigned_cookie:
  assumes "session_entry (signedCookies request) = None"
    and "session_entry (cookies request) = Some c"
    and "unsignCookie request = Some unsign"
    and "unsign c = Some r"
    and "\<not> valid r"
  shows "getCurrentUser P M clock request = Inr None"
  using assms by (simp add: getCurrentUser_def session_token_def)

lemma login_admin_demo:
  "login demo (load_auth demo) 0 (login_request (credentials ''admin@example.com'' ''password123''))
     = Inr (\<lparr> statusCode = 200,
               cookie_ops =
                 [SetCookie ''session'' ''admin-token''
                    \<lparr> httpOnly = True, secure = False, sameSite = ''lax'', maxAge = 86400000 \<rparr>],
               payload = LoginBody True
                 (JObj [ (''id'', JStr ''user-1''), (''email'', JStr ''admin@example.com''),
                         (''role'', JStr ''admin''),
                         (''groups'',
                           JArr [ JObj [(''type'', JStr ''team''), (''id'', JStr ''team-1''),
                                        (''name'', JStr ''Engineering'')],
                                  JObj [(''type'', JStr ''organization''), (''id'', JStr ''org-1''),
                                        (''name'', JStr ''Acme Corp'')] ]) ]) \<rparr>,
            load_auth demo)"
proof -
  have a: "authenticateUser_any demo (load_auth demo) (JStr ''admin@example.com'')
             (JStr ''password123'') = Inr (Some admin_user)"
    by (simp add: authenticateUser_any_def load_auth_def demo_def stub_platform_def
          admin_user_def)
  have b: "createSessionJWT demo (load_auth demo) 0 admin_user = ''admin-token''"
    by (simp add: createSessionJWT_def session_claims_admin JWT_SECRET_demo jwt_demo
          stub_sign_def)
  have c: "env_NODE_ENV demo = None"
    by (simp add: demo_def stub_platform_def)
  have d: "id' admin_user = ''user-1''" "email admin_user = ''admin@example.com''"
    "role admin_user = ''admin''"
    "map group_js (groups admin_user) =
       [ JObj [(''type'', JStr ''team''), (''id'', JStr ''team-1''),
               (''name'', JStr ''Engineering'')],
         JObj [(''type'', JStr ''organization''), (''id'', JStr ''org-1''),
               (''name'', JStr ''Acme Corp'')] ]"
    by (simp_all add: admin_user_def group_js_def)
  show ?thesis
    by (simp add: login_def login_request_def bare_request_def credentials_def get_prop_def
          a b c d new_reply_def setCookie_def send_def)
qed

text \<open>
  The cookie that the login route sets for \<open>user-1\<close> is the token itself; a request
  that brings it back gets no user from \<open>getCurrentUser\<close>, and 401 from
  \<open>/api/auth/me\<close> and from the protected route, although \<open>verifySessionJWT\<close> accepts
  the token and the first version of \<open>getCurrentUser\<close> returns its user.
\<close>

theorem getCurrentUser_login_cookie_witness:
  "(\<exists>r. login demo (load_auth demo) 0
            (login_request (credentials ''admin@example.com'' ''password123''))
          = Inr (r, load_auth demo)
        \<and> cookie_ops r =
            [SetCookie ''session'' ''admin-token''
               \<lparr> httpOnly = True, secure = False, sameSite = ''lax'', maxAge = 86400000 \<rparr>])
   \<and> session_entry (cookies (unsigned_cookie_request ''admin-token'')) = Some ''admin-token''
   \<and> verifySessionJWT demo (load_auth demo) 3600 ''admin-token'' = Inr (Some (as_any admin_user))
   \<and> getCurrentUser_v1 demo (load_auth demo) 3600 (unsigned_cookie_request ''admin-token'')
       = Inr (Some (as_any admin_user))
   \<and> getCurrentUser demo (load_auth demo) 3600 (unsigned_cookie_request ''admin-token'') = Inr None
   \<and> respond (me demo (load_auth demo) 3600 (unsigned_cookie_request ''admin-token''))
       = \<lparr> statusCode = 401, cookie_ops = [], payload = ErrorBody ''Not authenticated'' \<rparr>
   \<and> respond (demo_protected demo (load_auth demo) 3600 (unsigned_cookie_request ''admin-token''))
       = \<lparr> statusCode = 401, cookie_ops = [], payload = ErrorBody ''Authentication required'' \<rparr>"
proof -
  let ?request = "unsigned_cookie_request ''admin-token''"
  have c: "session_entry (cookies ?request) = Some ''admin-token''"
    by (simp add: unsigned_cookie_request_def session_entry_def)
  have g: "getCurrentUser demo (load_auth demo) 3600 ?request = Inr None"
    by (rule getCurrentUser_ignores_unsigned_cookie
          [where c = "''admin-token''"
             and unsign = "\<lambda>v. Some \<lparr> valid = False, renew = False, unsigned_value = None \<rparr>"
             and r = "\<lparr> valid = False, renew = False, unsigned_value = None \<rparr>"])
       (simp_all add: unsigned_cookie_request_def bare_request_def session_entry_def)
  have v: "verifySessionJWT demo (load_auth demo) 3600 ''admin-token''
             = Inr (Some (as_any admin_user))"
    by (simp add: verify_admin_token_demo)
  have v1: "getCurrentUser_v1 demo (load_auth demo) 3600 ?request = Inr (Some (as_any admin_user))"
    by (simp add: getCurrentUser_v1_cookie(2) [OF c] v)
  have m: "respond (me demo (load_auth demo) 3600 ?request)
       = \<lparr> statusCode = 401, cookie_ops = [], payload = ErrorBody ''Not authenticated'' \<rparr>"
    by (simp add: me_def g respond_def new_reply_def status_def send_def)
  have p: "respond (demo_protected demo (load_auth demo) 3600 ?request)
       = \<lparr> statusCode = 401, cookie_ops = [], payload = ErrorBody ''Authentication required'' \<rparr>"
    by (simp add: demo_protected_def requireAuth_def g respond_def new_reply_def status_def
          send_def)
  from c g v v1 m p show ?thesis
    by (simp add: login_admin_demo)
qed

section \<open>The routes\<close>

lemma authenticateUser_any_strings:
  "authenticateUser_any P M (JStr e) (JStr p) = Inr (authenticateUser P M e p)"
  by (simp add: authenticateUser_any_def authenticateUser_def split: option.splits)

lemma prop_of_truthy_not_nullish: "truthy_js (prop_of b k) \<Longrightarrow> b \<noteq> JUndefined \<and> b \<noteq> JNull"
  by (cases b) simp_all

lemma login_cases:
  "login P M clock request =
     (if request_body request = JUndefined \<or> request_body request = JNull then
        Inl (TypeError ''Cannot read properties of undefined or null'')
      else if \<not> truthy_js (prop_of (request_body request) ''email'') \<or>
              \<not> truthy_js (prop_of (request_body request) ''password'') then
        Inr (\<lparr> statusCode = 400, cookie_ops = [],
                payload = ErrorBody ''Email and password required'' \<rparr>, M)
      else
        (case authenticateUser_any P M (prop_of (request_body request) ''email'')
                (prop_of (request_body request) ''password'') of
           Inl e \<Rightarrow> Inl e
         | Inr None \<Rightarrow> Inr (\<lparr> statusCode = 401, cookie_ops = [],
                                payload = ErrorBody ''Invalid credentials'' \<rparr>, M)
         | Inr (Some u) \<Rightarrow>
             Inr (\<lparr> statusCode = 200,
                     cookie_ops =
                       [SetCookie ''session'' (createSessionJWT P M clock u)
                          \<lparr> httpOnly = True,
                            secure = (env_NODE_ENV P = Some ''production''),
                            sameSite = ''lax'',
                            maxAge = 86400000 \<rparr>],
                     payload = LoginBody True
                       (JObj [ (''id'', JStr (id' u)), (''email'', JStr (email u)),
                               (''role'', JStr (role u)),
                               (''groups'', JArr (map group_js (groups u))) ]) \<rparr>, M)))"
  by (simp add: login_def get_prop_def new_reply_def status_def send_def setCookie_def Let_def
        split: sum.splits option.splits)

lemma login_request_body: "request_body (login_request b) = b"
  by (simp add: login_request_def bare_request_def)

lemma prop_of_credentials:
  "prop_of (credentials e p) ''email'' = JStr e"
  "prop_of (credentials e p) ''password'' = JStr p"
  by (simp_all add: credentials_def)

lemma authenticate_wrong_demo:
  "authenticateUser demo (load_auth demo) ''admin@example.com'' ''wrong'' = None"
  by (simp add: authenticateUser_def load_auth_def demo_def stub_platform_def)

lemma authenticate_admin_demo:
  "authenticateUser demo (load_auth demo) ''admin@example.com'' ''password123'' = Some admin_user"
  by (simp add: authenticateUser_def load_auth_def demo_def stub_platform_def admin_user_def)

lemma createSessionJWT_admin_demo:
  "createSessionJWT demo (load_auth demo) 0 admin_user = ''admin-token''"
  by (simp add: createSessionJWT_def session_claims_admin JWT_SECRET_demo jwt_demo stub_sign_def)

text \<open>
  Claim C6, as stated, fails in four ways. With the email present as the empty string
  and a password present, authentication fails and the claim asks for 401, but the
  handler answers 400. The \<open>user\<close> of the success payload has the keys \<open>id\<close>,
  \<open>email\<close>, \<open>role\<close> and \<open>groups\<close> and no \<open>adminScopes\<close>, although the user has
  an admin scope. With no body, or the body \<open>null\<close>, both fields are missing, yet the
  handler throws and the client gets 500, not 400. With the email of a stored user and
  a number as password, the handler throws as well and the client gets 500, not 401.
\<close>

theorem login_counterexample:
  "prop_of (credentials [] ''password123'') ''email'' = JStr []
   \<and> prop_of (credentials [] ''password123'') ''password'' = JStr ''password123''
   \<and> authenticateUser demo (load_auth demo) [] ''password123'' = None
   \<and> login demo (load_auth demo) 0 (login_request (credentials [] ''password123''))
       = Inr (\<lparr> statusCode = 400, cookie_ops = [],
                 payload = ErrorBody ''Email and password required'' \<rparr>, load_auth demo)
   \<and> payload (respond (login demo (load_auth demo) 0
         (login_request (credentials ''admin@example.com'' ''password123''))))
       = LoginBody True
           (JObj [ (''id'', JStr ''user-1''), (''email'', JStr ''admin@example.com''),
                   (''role'', JStr ''admin''),
                   (''groups'',
                     JArr [ JObj [(''type'', JStr ''team''), (''id'', JStr ''team-1''),
                                  (''name'', JStr ''Engineering'')],
                            JObj [(''type'', JStr ''organization''), (''id'', JStr ''org-1''),
                                  (''name'', JStr ''Acme Corp'')] ]) ])
   \<and> adminScopes admin_user = [''autojoin'']
   \<and> respond (login demo (load_auth demo) 0 (login_request JUndefined))
       = \<lparr> statusCode = 500, cookie_ops = [], payload = ErrorBody ''Internal server error'' \<rparr>
   \<and> respond (login demo (load_auth demo) 0 (login_request JNull))
       = \<lparr> statusCode = 500, cookie_ops = [], payload = ErrorBody ''Internal server error'' \<rparr>
   \<and> respond (login demo (load_auth demo) 0
         (login_request (JObj [(''email'', JStr ''admin@example.com''), (''password'', JNum 123)])))
       = \<lparr> statusCode = 500, cookie_ops = [], payload = ErrorBody ''Internal server error'' \<rparr>"
proof -
  have a: "login demo (load_auth demo) 0 (login_request (credentials [] ''password123''))
       = Inr (\<lparr> statusCode = 400, cookie_ops = [],
                 payload = ErrorBody ''Email and password required'' \<rparr>, load_auth demo)"
    by (simp add: login_cases login_request_body credentials_def)
  have b: "authenticateUser demo (load_auth demo) [] ''password123'' = None"
    by (simp add: authenticateUser_def load_auth_def)
  have c: "respond (login demo (load_auth demo) 0 (login_request JUndefined))
       = \<lparr> statusCode = 500, cookie_ops = [], payload = ErrorBody ''Internal server error'' \<rparr>"
    "respond (login demo (load_auth demo) 0 (login_request JNull))
       = \<lparr> statusCode = 500, cookie_ops = [], payload = ErrorBody ''Internal server error'' \<rparr>"
    by (simp_all add: login_cases login_request_body respond_def new_reply_def status_def
          send_def)
  have d: "authenticateUser_any demo (load_auth demo) (JStr ''admin@example.com'') (JNum 123)
             = Inl (Error ''Illegal arguments'')"
    by (simp add: authenticateUser_any_def load_auth_def)
  have e: "respond (login demo (load_auth demo) 0
         (login_request (JObj [(''email'', JStr ''admin@example.com''), (''password'', JNum 123)])))
       = \<lparr> statusCode = 500, cookie_ops = [], payload = ErrorBody ''Internal server error'' \<rparr>"
    by (simp add: login_cases login_request_body d respond_def new_reply_def status_def send_def)
  from a b c e show ?thesis
    by (simp add: prop_of_credentials login_admin_demo respond_def)
       (simp add: admin_user_def)
qed

text \<open>
  Claim C6, amended. For a login request whose body is an object: if the email or the
  password is missing or falsy (the empty string, \<open>null\<close>, \<open>false\<close>, 0), the route
  answers 400. If both are non-empty strings and authentication fails, it answers 401
  with \<open>{error: 'Invalid credentials'}\<close> and sets no cookie. If both are non-empty
  strings and authentication succeeds, it answers 200, sets one cookie, named
  \<open>session\<close>, whose value is the token \<open>createSessionJWT\<close> signs for the user at that
  moment, and returns \<open>{success: true, user}\<close> where \<open>user\<close> holds the user's id,
  email, role and groups. (Nothing is said of a request without a body or with the
  body \<open>null\<close>, nor of an email or a password that is truthy and not a string.)
\<close>

theorem login_responses:
  "(request_body request \<noteq> JUndefined \<and> request_body request \<noteq> JNull \<and>
    (\<not> truthy_js (prop_of (request_body request) ''email'') \<or>
     \<not> truthy_js (prop_of (request_body request) ''password'')) \<longrightarrow>
      login P M clock request =
        Inr (\<lparr> statusCode = 400, cookie_ops = [],
                payload = ErrorBody ''Email and password required'' \<rparr>, M))
   \<and> (prop_of (request_body request) ''email'' = JStr e \<and> e \<noteq> [] \<and>
       prop_of (request_body request) ''password'' = JStr p \<and> p \<noteq> [] \<and>
       authenticateUser P M e p = None \<longrightarrow>
      login P M clock request =
        Inr (\<lparr> statusCode = 401, cookie_ops = [],
                payload = ErrorBody ''Invalid credentials'' \<rparr>, M))
   \<and> (prop_of (request_body request) ''email'' = JStr e \<and> e \<noteq> [] \<and>
       prop_of (request_body request) ''password'' = JStr p \<and> p \<noteq> [] \<and>
       authenticateUser P M e p = Some u \<longrightarrow>
      (\<exists>opts. login P M clock request =
        Inr (\<lparr> statusCode = 200,
                cookie_ops = [SetCookie ''session'' (createSessionJWT P M clock u) opts],
                payload = LoginBody True
                  (JObj [ (''id'', JStr (id' u)), (''email'', JStr (email u)),
                          (''role'', JStr (role u)),
                          (''groups'', JArr (map group_js (groups u))) ]) \<rparr>, M)))"
proof -
  have nn: "request_body request \<noteq> JUndefined \<and> request_body request \<noteq> JNull"
    if "prop_of (request_body request) ''email'' = JStr e" and "e \<noteq> []"
    using that prop_of_truthy_not_nullish [of "request_body request" "''email''"] by simp
  have 1: "request_body request \<noteq> JUndefined \<and> request_body request \<noteq> JNull \<and>
    (\<not> truthy_js (prop_of (request_body request) ''email'') \<or>
     \<not> truthy_js (prop_of (request_body request) ''password'')) \<longrightarrow>
      login P M clock request =
        Inr (\<lparr> statusCode = 400, cookie_ops = [],
                payload = ErrorBody ''Email and password required'' \<rparr>, M)"
    by (simp add: login_cases)
  have 2: "prop_of (request_body request) ''email'' = JStr e \<and> e \<noteq> [] \<and>
       prop_of (request_body request) ''password'' = JStr p \<and> p \<noteq> [] \<and>
       authenticateUser P M e p = None \<longrightarrow>
      login P M clock request =
        Inr (\<lparr> statusCode = 401, cookie_ops = [],
                payload = ErrorBody ''Invalid credentials'' \<rparr>, M)"
    using nn by (simp add: login_cases authenticateUser_any_strings)
  have 3: "prop_of (request_body request) ''email'' = JStr e \<and> e \<noteq> [] \<and>
       prop_of (request_body request) ''password'' = JStr p \<and> p \<noteq> [] \<and>
       authenticateUser P M e p = Some u \<longrightarrow>
      (\<exists>opts. login P M clock request =
        Inr (\<lparr> statusCode = 200,
                cookie_ops = [SetCookie ''session'' (createSessionJWT P M clock u) opts],
                payload = LoginBody True
                  (JObj [ (''id'', JStr (id' u)), (''email'', JStr (email u)),
                          (''role'', JStr (role u)),
                          (''groups'', JArr (map group_js (groups u))) ]) \<rparr>, M))"
    using nn by (simp add: login_cases authenticateUser_any_strings)
  from 1 2 3 show ?thesis by (intro conjI)
qed

text \<open>
  An empty object, a body without email, a wrong password, and the right one.
\<close>

theorem login_responses_witness:
  "login demo (load_auth demo) 0 (login_request (JObj []))
     = Inr (\<lparr> statusCode = 400, cookie_ops = [],
               payload = ErrorBody ''Email and password required'' \<rparr>, load_auth demo)
   \<and> login demo (load_auth demo) 0 (login_request (JObj [(''password'', JStr ''password123'')]))
     = Inr (\<lparr> statusCode = 400, cookie_ops = [],
               payload = ErrorBody ''Email and password required'' \<rparr>, load_auth demo)
   \<and> login demo (load_auth demo) 0 (login_request (credentials ''admin@example.com'' ''wrong''))
     = Inr (\<lparr> statusCode = 401, cookie_ops = [],
               payload = ErrorBody ''Invalid credentials'' \<rparr>, load_auth demo)
   \<and> (\<exists>opts. login demo (load_auth demo) 0
                (login_request (credentials ''admin@example.com'' ''password123''))
     = Inr (\<lparr> statusCode = 200,
               cookie_ops = [SetCookie ''session'' ''admin-token'' opts],
               payload = LoginBody True
                 (JObj [ (''id'', JStr (id' admin_user)), (''email'', JStr (email admin_user)),
                         (''role'', JStr (role admin_user)),
                         (''groups'', JArr (map group_js (groups admin_user))) ]) \<rparr>,
            load_auth demo))"
proof -
  let ?M = "load_auth demo"
  have a: "login demo ?M 0 (login_request (JObj []))
     = Inr (\<lparr> statusCode = 400, cookie_ops = [],
               payload = ErrorBody ''Email and password required'' \<rparr>, ?M)"
    using login_responses
      [where request = "login_request (JObj [])" and P = demo and M = ?M and clock = 0]
    by (simp add: login_request_body)
  have b: "login demo ?M 0 (login_request (JObj [(''password'', JStr ''password123'')]))
     = Inr (\<lparr> statusCode = 400, cookie_ops = [],
               payload = ErrorBody ''Email and password required'' \<rparr>, ?M)"
    using login_responses
      [where request = "login_request (JObj [(''password'', JStr ''password123'')])"
         and P = demo and M = ?M and clock = 0]
    by (simp add: login_request_body)
  have c: "login demo ?M 0 (login_request (credentials ''admin@example.com'' ''wrong''))
     = Inr (\<lparr> statusCode = 401, cookie_ops = [],
               payload = ErrorBody ''Invalid credentials'' \<rparr>, ?M)"
    using login_responses
      [where request = "login_request (credentials ''admin@example.com'' ''wrong'')"
         and P = demo and M = ?M and clock = 0 and e = "''admin@example.com''"
         and p = "''wrong''"]
    by (simp add: login_request_body prop_of_credentials authenticate_wrong_demo)
  have d: "\<exists>opts. login demo ?M 0
                (login_request (credentials ''admin@example.com'' ''password123''))
     = Inr (\<lparr> statusCode = 200,
               cookie_ops = [SetCookie ''session'' ''admin-token'' opts],
               payload = LoginBody True
                 (JObj [ (''id'', JStr (id' admin_user)), (''email'', JStr (email admin_user)),
                         (''role'', JStr (role admin_user)),
                         (''groups'', JArr (map group_js (groups admin_user))) ]) \<rparr>, ?M)"
    using login_responses
      [where request = "login_request (credentials ''admin@example.com'' ''password123'')"
         and P = demo and M = ?M and clock = 0 and e = "''admin@example.com''"
         and p = "''password123''" and u = admin_user]
    by (simp add: login_request_body prop_of_credentials authenticate_admin_demo
          createSessionJWT_admin_demo)
  from a b c d show ?thesis by (intro conjI)
qed

text \<open>
  Claim C7 (what the code does). On a successful login the one cookie set is named
  \<open>session\<close>, is http-only, has \<open>sameSite = lax\<close> and is secure exactly when
  \<open>NODE_ENV\<close> is \<open>production\<close>; its \<open>maxAge\<close> option is 86400000, which as a
  \<open>Max-Age\<close> in seconds is a thousand days, not one.
\<close>

theorem login_cookie_options:
  assumes "prop_of (request_body request) ''email'' = JStr e" and "e \<noteq> []"
    and "prop_of (request_body request) ''password'' = JStr p" and "p \<noteq> []"
    and "authenticateUser P M e p = Some u"
  shows "\<exists>r. login P M clock request = Inr (r, M) \<and>
           cookie_ops r =
             [SetCookie ''session'' (createSessionJWT P M clock u)
                \<lparr> httpOnly = True,
                  secure = (env_NODE_ENV P = Some ''production''),
                  sameSite = ''lax'',
                  maxAge = 1000 * (24 * 60 * 60) \<rparr>]"
proof -
  from assms(1,2) have "request_body request \<noteq> JUndefined \<and> request_body request \<noteq> JNull"
    using prop_of_truthy_not_nullish [of "request_body request" "''email''"] by simp
  with assms show ?thesis
    by (simp add: login_cases authenticateUser_any_strings)
qed

text \<open>The login of \<open>user-1\<close> on the test double, where \<open>NODE_ENV\<close> is not set.\<close>

theorem login_cookie_options_witness:
  "\<exists>r. login demo (load_auth demo) 0
          (login_request (credentials ''admin@example.com'' ''password123''))
        = Inr (r, load_auth demo) \<and>
       cookie_ops r =
         [SetCookie ''session'' ''admin-token''
            \<lparr> httpOnly = True, secure = False, sameSite = ''lax'', maxAge = 86400000 \<rparr>]"
  using login_cookie_options
    [where request = "login_request (credentials ''admin@example.com'' ''password123'')"
       and P = demo and M = "load_auth demo" and clock = 0 and e = "''admin@example.com''"
       and p = "''password123''" and u = admin_user]
  by (simp add: login_request_body prop_of_credentials authenticate_admin_demo
        createSessionJWT_admin_demo)
     (simp add: demo_def stub_platform_def)

text \<open>
  Claim C8. Whatever the request, the logout route answers 200 with \<open>{success: true}\<close>
  and clears the cookie \<open>session\<close>; it leaves the module state as it found it, so a
  token verifies afterwards, at any time, to what it would have verified to without the
  logout.
\<close>

theorem logout_clears_cookie_and_keeps_state:
  "logout P M clock request =
     Inr (\<lparr> statusCode = 200, cookie_ops = [ClearCookie ''session''],
             payload = SuccessBody True \<rparr>, M)
   \<and> (\<forall>r M'. logout P M clock request = Inr (r, M') \<longrightarrow>
          M' = M \<and> verifySessionJWT P M' t token = verifySessionJWT P M t token)"
  by (simp add: logout_def)
     (simp add: new_reply_def clearCookie_def send_def)

text \<open>
  A logout by a client that holds a valid session and one by a client that holds none;
  the token of the first still verifies in the state the logout leaves.
\<close>

theorem logout_witness:
  "logout demo (load_auth demo) 3600 bare_request
     = Inr (\<lparr> statusCode = 200, cookie_ops = [ClearCookie ''session''],
               payload = SuccessBody True \<rparr>, load_auth demo)
   \<and> (\<exists>M'. logout demo (load_auth demo) 3600 (signed_cookie_request ''admin-token'')
          = Inr (\<lparr> statusCode = 200, cookie_ops = [ClearCookie ''session''],
                    payload = SuccessBody True \<rparr>, M')
        \<and> verifySessionJWT demo M' 7200 ''admin-token'' = Inr (Some (as_any admin_user)))"
proof -
  note a = logout_clears_cookie_and_keeps_state
    [of demo "load_auth demo" 3600 bare_request, THEN conjunct1]
  note b = logout_clears_cookie_and_keeps_state
    [of demo "load_auth demo" 3600 "signed_cookie_request ''admin-token''" 7200 "''admin-token''"]
  from b have c: "verifySessionJWT demo (load_auth demo) 7200 ''admin-token''
                    = Inr (Some (as_any admin_user))"
    by (simp only: verify_admin_token_demo [of 7200, simplified])
  from a b [THEN conjunct1] c show ?thesis by blast
qed

text \<open>
  Claim C9. \<open>getDemoUsers\<close> returns one record per stored user, in the order of the
  store; each has the id, email, admin scopes, role and groups of the stored record at
  the same position and nothing else (it is the stored record cut down to the fields of
  \<open>DemoUser\<close>, which has no password). The route returns that list.
\<close>

theorem getDemoUsers_public_fields:
  "length (getDemoUsers M) = length (users M)
   \<and> (\<forall>i < length (users M).
        id' (getDemoUsers M ! i) = id' (users M ! i) \<and>
        email (getDemoUsers M ! i) = email (users M ! i) \<and>
        adminScopes (getDemoUsers M ! i) = adminScopes (users M ! i) \<and>
        role (getDemoUsers M ! i) = role (users M ! i) \<and>
        groups (getDemoUsers M ! i) = groups (users M ! i))
   \<and> getDemoUsers M = map DemoUser.truncate (users M)
   \<and> demo_users P M clock request =
       Inr (\<lparr> statusCode = 200, cookie_ops = [], payload = UsersBody (getDemoUsers M) \<rparr>, M)"
  by (simp add: getDemoUsers_def demo_users_def new_reply_def send_def DemoUser.truncate_def)

text \<open>The two users of the module.\<close>

theorem getDemoUsers_witness:
  "length (users (load_auth demo)) = 2
   \<and> map id' (getDemoUsers (load_auth demo)) = [''user-1'', ''user-2'']
   \<and> map email (getDemoUsers (load_auth demo)) = [''admin@example.com'', ''user@example.com'']
   \<and> map adminScopes (getDemoUsers (load_auth demo)) = [[''autojoin''], []]
   \<and> map role (getDemoUsers (load_auth demo)) = [''admin'', ''user'']
   \<and> getDemoUsers (load_auth demo) ! 0 = admin_user"
  using getDemoUsers_public_fields [of "load_auth demo" demo 0 bare_request]
  by (simp add: load_auth_def DemoUser.truncate_def admin_user_def)

end
